theory Spec2Isabelle
  imports Main "HOL-Library.Sublist"
begin

section \<open>Python values used by the account code\<close>

text \<open>
  A Python \<open>str\<close> is a sequence of Unicode code points; \<open>len\<close> counts code points
  and \<open>==\<close> compares them one by one. It is modelled as the list of its code points.
  \<open>str\<close> reads an ASCII literal of the source as such a list.
\<close>

type_synonym pystr = "nat list"

definition str :: "string \<Rightarrow> pystr" where
  "str s = map of_char s"

text \<open>
  \<open>a in b\<close> on two strings: \<open>a\<close> occurs in \<open>b\<close> as a contiguous run. The search
  tries every start position of \<open>b\<close>, the one after the last character included.
\<close>

fun py_in :: "'a list \<Rightarrow> 'a list \<Rightarrow> bool" where
  "py_in a [] = (a = [])"
| "py_in a (y # ys) = (prefix a (y # ys) \<or> py_in a ys)"

text \<open>
  \<open>not x\<close> for an argument that is \<open>None\<close> or a string: true for \<open>None\<close> and for
  the empty string.
\<close>

fun py_not :: "pystr option \<Rightarrow> bool" where
  "py_not None = True"
| "py_not (Some s) = (s = [])"

text \<open>
  The character classes of the patterns in \<open>forms.py\<close>. None of the patterns is compiled
  with a flag, so \<open>[a-z]\<close> and \<open>[A-Z]\<close> are the ASCII ranges, and inside a class the
  dollar sign is a literal character.
\<close>

definition lower_az :: "nat \<Rightarrow> bool" where
  "lower_az c = (of_char CHR ''a'' \<le> c \<and> c \<le> of_char CHR ''z'')"

definition upper_AZ :: "nat \<Rightarrow> bool" where
  "upper_AZ c = (of_char CHR ''A'' \<le> c \<and> c \<le> of_char CHR ''Z'')"

definition special :: "nat \<Rightarrow> bool" where
  "special c = (c = of_char CHR ''@'' \<or> c = of_char CHR ''#'' \<or> c = of_char CHR ''$'')"

text \<open>
  \<open>re.search('(C)+', s)\<close> and \<open>re.search('C+', s)\<close> for a character class \<open>C\<close>:
  a match exists exactly when some character of \<open>s\<close> is in the class. The value is
  only ever tested for truth, so the model returns the truth value.
\<close>

definition re_search :: "(nat \<Rightarrow> bool) \<Rightarrow> pystr \<Rightarrow> bool" where
  "re_search cls s = list_ex cls s"

text \<open>The exceptions the modelled code can raise.\<close>

datatype rejection =
    WrongOldPassword
  | PasswordUnchanged
  | MissingCaseMix
  | TooShort
  | MissingDigit
  | MissingSpecialChar
  | ContainsIdentityFragment

datatype py_error =
    ValidationError rejection
  | ValueError string
  | TypeError
  | AttributeError
  | IntegrityError

section \<open>models.py: the rows\<close>

text \<open>
  \<open>User(AbstractBaseUser, PermissionsMixin)\<close>: the columns of the class and of its two
  bases. \<open>pk\<close> is the automatic primary key, \<open>None\<close> until the row is inserted.
  \<open>username\<close> is declared \<open>null=True\<close>; \<open>first_name\<close> and \<open>last_name\<close> are
  \<open>blank=True\<close>, so the empty string is a legal value of both.
\<close>

record user =
  pk :: "nat option"
  password :: pystr
  last_login :: "nat option"
  is_superuser :: bool
  first_name :: pystr
  last_name :: pystr
  username :: "pystr option"
  email :: pystr
  date_joined :: nat
  is_active :: bool
  is_staff :: bool

text \<open>
  What the code calls in the language runtime and in the framework, taken as parameters:
  \<open>str.lower\<close>, the class \<open>\d\<close> of the pattern engine, the password hasher behind
  \<open>set_password\<close> and \<open>check_password\<close>, \<open>normalize_email\<close> (which takes
  \<open>None\<close> as well as a string) and the clock behind the default of \<open>date_joined\<close>.
  Every theorem below holds for all of them.
\<close>

record env =
  lower :: "pystr \<Rightarrow> pystr"
  isdigit :: "nat \<Rightarrow> bool"
  check_password :: "user \<Rightarrow> pystr option \<Rightarrow> bool"
  make_password :: "pystr option \<Rightarrow> pystr"
  normalize_email :: "pystr option \<Rightarrow> pystr"
  now :: nat

section \<open>forms.py: ValidatingPasswordChangeForm\<close>

definition MIN_LENGTH :: nat where
  "MIN_LENGTH = 14"

text \<open>
  \<open>cleaned_data\<close> is the dictionary of the form's validated fields; \<open>.get\<close> gives
  \<open>None\<close> for a field that is absent.
\<close>

type_synonym cleaned_data = "string \<rightharpoonup> pystr"

text \<open>
  \<open>ValidatingPasswordChangeForm.clean\<close>, for the user of the request. Each
  \<open>raise forms.ValidationError(...)\<close> of the source is one \<open>rejection\<close>, in the order
  of the source:
  \<^item> \<open>PasswordUnchanged\<close>: "New password cannot match the old password."
  \<^item> \<open>WrongOldPassword\<close>: "Your old password was entered incorrectly. ..."
  \<^item> \<open>MissingCaseMix\<close>: "The new password must use both uppercase and lowercase letters."
  \<^item> \<open>TooShort\<close>: "The new password must be at least 14 characters long."
  \<^item> \<open>MissingDigit\<close>: "The new password must include one or more numerical digits."
  \<^item> \<open>MissingSpecialChar\<close>: "The new password must include the at least one of the
    following characters: ..."
  \<^item> \<open>ContainsIdentityFragment\<close>: "The new password cannot contain your username (...)
    or parts of your full name (...)."

  \<open>re.search\<close> on \<open>None\<close> raises \<open>TypeError\<close>, and \<open>user.username.lower()\<close>
  raises \<open>AttributeError\<close> when the username is \<open>None\<close>. On success the method returns
  \<open>self.cleaned_data\<close>.
\<close>

definition clean :: "env \<Rightarrow> user \<Rightarrow> cleaned_data \<Rightarrow> py_error + cleaned_data" where
  "clean E user cleaned_data =
    (let new_password = cleaned_data ''new_password1'';
         old_password = cleaned_data ''old_password''
     in
      if check_password E user old_password then
        if new_password = old_password then Inl (ValidationError PasswordUnchanged)
        else
          (case new_password of
            None \<Rightarrow> Inl TypeError
          | Some new \<Rightarrow>
              if \<not> re_search lower_az new \<or> \<not> re_search upper_AZ new then
                Inl (ValidationError MissingCaseMix)
              else if length new < MIN_LENGTH then Inl (ValidationError TooShort)
              else if \<not> re_search (isdigit E) new then Inl (ValidationError MissingDigit)
              else if \<not> re_search special new then Inl (ValidationError MissingSpecialChar)
              else
                (case username user of
                  None \<Rightarrow> Inl AttributeError
                | Some name \<Rightarrow>
                    let user_first_name = lower E (first_name user);
                        user_last_name = lower E (last_name user);
                        user_username = lower E name
                    in
                      if py_in user_first_name (lower E new)
                         \<or> py_in user_last_name (lower E new)
                         \<or> py_in user_username (lower E new)
                      then Inl (ValidationError ContainsIdentityFragment)
                      else Inr cleaned_data))
      else Inl (ValidationError WrongOldPassword))"

section \<open>models.py: the tables and the operations on them\<close>

text \<open>
  \<open>UserProfile\<close>: the key of the row, the column \<open>user_id\<close> behind the one-to-one
  field \<open>user\<close>, and the five nullable columns.
\<close>

record userprofile =
  profile_pk :: nat
  user_id :: nat
  avatar :: "pystr option"
  location :: "pystr option"
  country :: "pystr option"
  preferred_position :: "pystr option"
  preferred_foot :: "pystr option"

text \<open>
  The database: the two tables in insertion order, and the next automatic key of each.
\<close>

record db =
  users :: "user list"
  profiles :: "userprofile list"
  next_user_pk :: nat
  next_profile_pk :: nat

text \<open>
  \<open>UserProfile.objects.create(user=instance)\<close>: a row for the user with every other
  column unset. The framework refuses an unsaved user with a \<open>ValueError\<close>; the
  database refuses a second profile for the same user (the one-to-one column is unique)
  and a user that has no row (the foreign key).
\<close>

definition UserProfile_create :: "db \<Rightarrow> user \<Rightarrow> db \<times> (py_error + userprofile)" where
  "UserProfile_create d instance =
    (case pk instance of
      None \<Rightarrow> (d, Inl (ValueError ''save() prohibited to prevent data loss due to unsaved related object''))
    | Some i \<Rightarrow>
        if (\<exists>p \<in> set (profiles d). user_id p = i) \<or> \<not> (\<exists>u \<in> set (users d). pk u = Some i)
        then (d, Inl IntegrityError)
        else
          let p = \<lparr> profile_pk = next_profile_pk d, user_id = i, avatar = None,
                    location = None, country = None, preferred_position = None,
                    preferred_foot = None \<rparr>
          in (d\<lparr>profiles := profiles d @ [p], next_profile_pk := Suc (next_profile_pk d)\<rparr>, Inr p))"

text \<open>The \<open>post_save\<close> handler connected for \<open>sender=User\<close>.\<close>

definition create_user_profile :: "db \<Rightarrow> user \<Rightarrow> bool \<Rightarrow> db \<times> (py_error + unit)" where
  "create_user_profile d instance created =
    (if created then
       (case UserProfile_create d instance of
         (d', Inl e) \<Rightarrow> (d', Inl e)
       | (d', Inr p) \<Rightarrow> (d', Inr ()))
     else (d, Inr ()))"

text \<open>
  The unique columns of \<open>User\<close>: \<open>email\<close>, and \<open>username\<close> (where \<open>NULL\<close> never
  conflicts). A row conflicts with the user being written when it is another row and
  agrees on one of them.
\<close>

definition unique_conflict :: "db \<Rightarrow> user \<Rightarrow> bool" where
  "unique_conflict d u =
    (\<exists>row \<in> set (users d). pk row \<noteq> pk u
       \<and> (email row = email u \<or> (username u \<noteq> None \<and> username row = username u)))"

text \<open>
  The insertion of a row under the key \<open>i\<close>; the key is unique as well.
\<close>

definition insert_row :: "db \<Rightarrow> user \<Rightarrow> nat \<Rightarrow> db \<times> (py_error + user \<times> bool)" where
  "insert_row d u i =
    (let u' = u\<lparr>pk := Some i\<rparr>
     in if (\<exists>row \<in> set (users d). pk row = Some i) \<or> unique_conflict d u'
        then (d, Inl IntegrityError)
        else (d\<lparr>users := users d @ [u'], next_user_pk := max (next_user_pk d) (Suc i)\<rparr>,
              Inr (u', True)))"

text \<open>
  The write of \<open>Model.save\<close>: a user whose key is set and has a row is updated; any
  other user is inserted (with the next automatic key when it has none) and is
  \<open>created\<close>. The result is the instance with its key, and the \<open>created\<close> flag.
\<close>

definition save_table :: "db \<Rightarrow> user \<Rightarrow> db \<times> (py_error + user \<times> bool)" where
  "save_table d u =
    (case pk u of
      None \<Rightarrow> insert_row d u (next_user_pk d)
    | Some i \<Rightarrow>
        if \<exists>row \<in> set (users d). pk row = Some i then
          if unique_conflict d u then (d, Inl IntegrityError)
          else (d\<lparr>users := map (\<lambda>row. if pk row = Some i then u else row) (users d)\<rparr>,
                Inr (u, False))
        else insert_row d u i)"

text \<open>
  \<open>user.save()\<close>: the write, then the \<open>post_save\<close> signal to the handler of this
  module with the \<open>created\<close> flag of the write. An exception of the handler leaves
  \<open>save\<close> after the row was written.
\<close>

definition save :: "db \<Rightarrow> user \<Rightarrow> db \<times> (py_error + user)" where
  "save d u =
    (case save_table d u of
      (d1, Inl e) \<Rightarrow> (d1, Inl e)
    | (d1, Inr (u1, created)) \<Rightarrow>
        (case create_user_profile d1 u1 created of
          (d2, Inl e) \<Rightarrow> (d2, Inl e)
        | (d2, Inr _) \<Rightarrow> (d2, Inr u1)))"

text \<open>
  \<open>self.model(first_name=..., last_name=..., email=..., username=...)\<close>: the other
  columns take their defaults.
\<close>

definition model :: "env \<Rightarrow> pystr \<Rightarrow> pystr \<Rightarrow> pystr \<Rightarrow> pystr option \<Rightarrow> user" where
  "model E fname lname mail uname =
    \<lparr> pk = None, password = [], last_login = None, is_superuser = False,
      first_name = fname, last_name = lname, username = uname, email = mail,
      date_joined = now E, is_active = True, is_staff = False \<rparr>"

definition set_password :: "env \<Rightarrow> user \<Rightarrow> pystr option \<Rightarrow> user" where
  "set_password E u raw_password = u\<lparr>password := make_password E raw_password\<rparr>"

text \<open>
  \<open>UserManager.create_user(first_name, last_name, email, username, password)\<close>, with
  the arguments in this order. \<open>email\<close>, \<open>username\<close> and \<open>password\<close> may be
  \<open>None\<close> (the last two by default). The two checks on the names are commented out
  in the source.
\<close>

definition create_user ::
  "env \<Rightarrow> db \<Rightarrow> pystr \<Rightarrow> pystr \<Rightarrow> pystr option \<Rightarrow> pystr option \<Rightarrow> pystr option
    \<Rightarrow> db \<times> (py_error + user)" where
  "create_user E d fname lname mail uname raw_password =
    (if py_not mail then (d, Inl (ValueError ''Users must have an email address''))
     else if py_not uname then (d, Inl (ValueError ''Users must have a username''))
     else
       let user = model E fname lname (normalize_email E mail) uname;
           user = set_password E user raw_password
       in save d user)"

text \<open>
  \<open>UserManager.create_superuser(first_name, last_name, email, password, username)\<close>.
\<close>

definition create_superuser ::
  "env \<Rightarrow> db \<Rightarrow> pystr \<Rightarrow> pystr \<Rightarrow> pystr option \<Rightarrow> pystr option \<Rightarrow> pystr option
    \<Rightarrow> db \<times> (py_error + user)" where
  "create_superuser E d fname lname mail raw_password uname =
    (case create_user E d fname lname mail uname raw_password of
      (d1, Inl e) \<Rightarrow> (d1, Inl e)
    | (d1, Inr user) \<Rightarrow> save d1 (user\<lparr>is_staff := True, is_superuser := True\<rparr>))"

text \<open>
  A consistent database: every user row has a key below the next automatic key, no two
  rows share a key, and every profile belongs to a user that has a row.
\<close>

fun key_below :: "nat \<Rightarrow> nat option \<Rightarrow> bool" where
  "key_below n None = False"
| "key_below n (Some i) = (i < n)"

definition db_ok :: "db \<Rightarrow> bool" where
  "db_ok d \<longleftrightarrow>
     (\<forall>u \<in> set (users d). key_below (next_user_pk d) (pk u))
     \<and> distinct (map pk (users d))
     \<and> (\<forall>p \<in> set (profiles d). \<exists>u \<in> set (users d). pk u = Some (user_id p))"

text \<open>
  A user that \<open>save\<close> writes for the first time: it has no key yet, or no row has its
  key.
\<close>

definition is_new :: "db \<Rightarrow> user \<Rightarrow> bool" where
  "is_new d u = (case pk u of None \<Rightarrow> True | Some i \<Rightarrow> \<not> (\<exists>row \<in> set (users d). pk row = Some i))"

text \<open>The profiles of the user with key \<open>i\<close>.\<close>

definition profiles_of :: "db \<Rightarrow> nat \<Rightarrow> userprofile list" where
  "profiles_of d i = filter (\<lambda>p. user_id p = i) (profiles d)"

text \<open>
  An instance of the parameters for evaluating the code on ASCII inputs: on an ASCII
  string \<open>str.lower\<close> shifts \<open>A\<close> to \<open>Z\<close> onto \<open>a\<close> to \<open>z\<close> and leaves the rest,
  and the only ASCII characters in \<open>\d\<close> are \<open>0\<close> to \<open>9\<close>. The hasher of this
  instance keeps the plain password behind a prefix, and an unusable marker for \<open>None\<close>.
\<close>

definition ascii_lower :: "pystr \<Rightarrow> pystr" where
  "ascii_lower s = map (\<lambda>c. if upper_AZ c then c + 32 else c) s"

definition ascii_digit :: "nat \<Rightarrow> bool" where
  "ascii_digit c = (of_char CHR ''0'' \<le> c \<and> c \<le> of_char CHR ''9'')"

definition plain_hash :: "pystr option \<Rightarrow> pystr" where
  "plain_hash raw = (case raw of None \<Rightarrow> str ''!'' | Some p \<Rightarrow> str ''plain$'' @ p)"

definition ascii_env :: env where
  "ascii_env =
    \<lparr> lower = ascii_lower,
      isdigit = ascii_digit,
      check_password = (\<lambda>u raw. raw \<noteq> None \<and> password u = plain_hash raw),
      make_password = plain_hash,
      normalize_email = (\<lambda>e. case e of None \<Rightarrow> [] | Some a \<Rightarrow> a),
      now = 0 \<rparr>"

text \<open>The user of the examples: \<open>jdoe\<close>, John Doe, whose password is \<open>OldSecret1\<close>.\<close>

definition jdoe :: user where
  "jdoe =
    \<lparr> pk = Some 1,
      password = plain_hash (Some (str ''OldSecret1'')),
      last_login = None,
      is_superuser = False,
      first_name = str ''John'',
      last_name = str ''Doe'',
      username = Some (str ''jdoe''),
      email = str ''jdoe@example.org'',
      date_joined = 0,
      is_active = True,
      is_staff = False \<rparr>"

definition request :: "string \<Rightarrow> string \<Rightarrow> cleaned_data" where
  "request old new =
    [''old_password'' \<mapsto> str old, ''new_password1'' \<mapsto> str new, ''new_password2'' \<mapsto> str new]"

text \<open>The database before the first user is saved.\<close>

definition empty_db :: db where
  "empty_db = \<lparr> users = [], profiles = [], next_user_pk = 1, next_profile_pk = 1 \<rparr>"

text \<open>A user that is not saved yet, with empty first and last names.\<close>

definition ann :: user where
  "ann = set_password ascii_env
     (model ascii_env [] [] (str ''ann@example.org'') (Some (str ''ann''))) (Some (str ''OldSecret1''))"

text \<open>
  The seven checks of \<open>clean\<close> for an old and a new password that are both strings,
  in the order in which the source tests them: the reason raised, and whether the check
  fails. Every condition is the one the source evaluates.
\<close>

definition checks :: "env \<Rightarrow> user \<Rightarrow> pystr \<Rightarrow> pystr \<Rightarrow> (rejection \<times> bool) list" where
  "checks E user old new =
    [ (WrongOldPassword, \<not> check_password E user (Some old)),
      (PasswordUnchanged, new = old),
      (MissingCaseMix, \<not> ((\<exists>c \<in> set new. lower_az c) \<and> (\<exists>c \<in> set new. upper_AZ c))),
      (TooShort, length new < 14),
      (MissingDigit, \<not> (\<exists>c \<in> set new. isdigit E c)),
      (MissingSpecialChar, \<not> (\<exists>c \<in> set new. c \<in> set (str ''@#$''))),
      (ContainsIdentityFragment,
        (\<exists>field \<in> set ([first_name user, last_name user] @ (case username user of None \<Rightarrow> [] | Some name \<Rightarrow> [name])).
           py_in (lower E field) (lower E new))) ]"

text \<open>The first check of a list that fails, if any.\<close>

fun first_failing :: "(rejection \<times> bool) list \<Rightarrow> rejection option" where
  "first_failing [] = None"
| "first_failing ((reason, fails) # rest) = (if fails then Some reason else first_failing rest)"

text \<open>
  The rule of the specification for the identity check, in its words: the lower-cased
  new password contains the lower-cased username, first name or last name, each of them
  looked at only if it is not empty.
\<close>

definition spec_identity_leak :: "env \<Rightarrow> user \<Rightarrow> pystr \<Rightarrow> bool" where
  "spec_identity_leak E user new =
    (\<exists>field \<in> set ([first_name user, last_name user] @ (case username user of None \<Rightarrow> [] | Some name \<Rightarrow> [name])).
       field \<noteq> [] \<and> py_in (lower E field) (lower E new))"

text \<open>
  A request that complies with all seven rules as the specification words them: the
  old password is correct, the new one differs from it, has a lowercase and an uppercase
  ASCII letter, at least 14 characters, a digit and one of \<open>@\<close>, \<open>#\<close>, \<open>$\<close>, and
  contains no identity field that is not empty.
\<close>

definition spec_compliant :: "env \<Rightarrow> user \<Rightarrow> pystr \<Rightarrow> pystr \<Rightarrow> bool" where
  "spec_compliant E user old new \<longleftrightarrow>
     check_password E user (Some old)
     \<and> new \<noteq> old
     \<and> (\<exists>c \<in> set new. lower_az c) \<and> (\<exists>c \<in> set new. upper_AZ c)
     \<and> 14 \<le> length new
     \<and> (\<exists>c \<in> set new. isdigit E c)
     \<and> (\<exists>c \<in> set new. c \<in> set (str ''@#$''))
     \<and> \<not> spec_identity_leak E user new"

section \<open>Properties of the password form\<close>

text \<open>
  The substring test finds \<open>a\<close> in \<open>b\<close> exactly when \<open>b\<close> is some run of
  characters, then \<open>a\<close>, then some run of characters. So the empty string is found in
  every string.
\<close>

lemma py_in_iff: "py_in a b \<longleftrightarrow> (\<exists>ps ss. b = ps @ a @ ss)"
proof -
  have "py_in a b = sublist a b"
    by (induction b) (simp_all add: sublist_Cons_right)
  then show ?thesis by (simp add: sublist_def)
qed

lemma py_in_empty: "py_in [] b"
  by (induction b) simp_all

lemma re_search_iff: "re_search cls s \<longleftrightarrow> (\<exists>c \<in> set s. cls c)"
  by (simp add: re_search_def list_ex_iff)

lemma special_iff: "special c \<longleftrightarrow> c \<in> set (str ''@#$'')"
  by (auto simp: special_def str_def)

lemmas example_defs =
  clean_def ascii_env_def jdoe_def request_def plain_hash_def str_def re_search_def
  lower_az_def upper_AZ_def special_def ascii_digit_def ascii_lower_def MIN_LENGTH_def Let_def

text \<open>
  C3. When \<open>check_password\<close> refuses the old password, \<open>clean\<close> raises the
  wrong-old-password error, whatever the new password is (a string or absent) and
  whoever the user is: no later check is consulted.
\<close>

theorem wrong_old_password:
  assumes "\<not> check_password E user (cleaned_data ''old_password'')"
  shows "clean E user cleaned_data = Inl (ValidationError WrongOldPassword)"
  using assms by (simp add: clean_def)

theorem wrong_old_password_witness:
  "clean ascii_env jdoe (request ''guess'' ''Str0ng#Pass2024'') = Inl (ValidationError WrongOldPassword)"
proof -
  have "\<not> check_password ascii_env jdoe (request ''guess'' ''Str0ng#Pass2024'' ''old_password'')"
    by (simp add: ascii_env_def jdoe_def request_def plain_hash_def str_def)
  then show ?thesis by (rule wrong_old_password)
qed

text \<open>
  C1. For every user and an old and a new password that are strings, \<open>clean\<close> raises
  the reason of the first of the six checks old password, unchanged password, case mix,
  length, digit, special character that fails, in this fixed order, and the later checks
  have no influence on it. When the six pass, the identity check follows. For a user with
  a username it refuses with the identity-fragment reason or returns the cleaned data.
  For a user whose username is \<open>None\<close> (the column is nullable) it raises
  \<open>AttributeError\<close>: the request is neither accepted nor refused with a reason. The
  witness is such a user and \<open>Str0ng#Pass2024\<close>, which contains none of the names.
\<close>

theorem clean_outcome_for_every_user:
  assumes "cleaned_data ''old_password'' = Some old"
    and "cleaned_data ''new_password1'' = Some new"
  shows "clean E user cleaned_data =
    (case first_failing (take 6 (checks E user old new)) of
      Some reason \<Rightarrow> Inl (ValidationError reason)
    | None \<Rightarrow>
        (case username user of
          None \<Rightarrow> Inl AttributeError
        | Some name \<Rightarrow>
            (case first_failing (drop 6 (checks E user old new)) of
              Some reason \<Rightarrow> Inl (ValidationError reason)
            | None \<Rightarrow> Inr cleaned_data)))"
  using assms
  by (simp add: clean_def checks_def re_search_iff special_iff MIN_LENGTH_def Let_def
      split: option.split)

theorem clean_outcome_for_every_user_witness:
  "first_failing (checks ascii_env (jdoe\<lparr>username := None\<rparr>) (str ''OldSecret1'') (str ''Str0ng#Pass2024''))
     = None
   \<and> clean ascii_env (jdoe\<lparr>username := None\<rparr>) (request ''OldSecret1'' ''Str0ng#Pass2024'')
       = Inl AttributeError"
proof
  show none: "first_failing (checks ascii_env (jdoe\<lparr>username := None\<rparr>) (str ''OldSecret1'')
      (str ''Str0ng#Pass2024'')) = None"
    by (simp add: checks_def example_defs)
  have old: "request ''OldSecret1'' ''Str0ng#Pass2024'' ''old_password'' = Some (str ''OldSecret1'')"
    by (simp add: request_def)
  have new: "request ''OldSecret1'' ''Str0ng#Pass2024'' ''new_password1'' = Some (str ''Str0ng#Pass2024'')"
    by (simp add: request_def)
  have six: "first_failing (take 6 (checks ascii_env (jdoe\<lparr>username := None\<rparr>) (str ''OldSecret1'')
      (str ''Str0ng#Pass2024''))) = None"
    by (simp add: checks_def example_defs)
  have name: "username (jdoe\<lparr>username := None\<rparr>) = None"
    by simp
  show "clean ascii_env (jdoe\<lparr>username := None\<rparr>) (request ''OldSecret1'' ''Str0ng#Pass2024'')
      = Inl AttributeError"
    using clean_outcome_for_every_user [OF old new, of ascii_env "jdoe\<lparr>username := None\<rparr>"]
    by (simp only: six name option.case)
qed

text \<open>
  For a user with a username and an old and a new password that are strings,
  \<open>clean\<close> raises the reason of the first check that fails, in the fixed order old
  password, unchanged password, case mix, length, digit, special character, identity
  fragment, and returns the cleaned data when none fails. The result is one reason, never
  several: the checks after the first failing one have no influence on it.
\<close>

theorem clean_first_failing_check:
  assumes "cleaned_data ''old_password'' = Some old"
    and "cleaned_data ''new_password1'' = Some new"
    and "username user = Some name"
  shows "clean E user cleaned_data =
    (case first_failing (checks E user old new) of
      Some reason \<Rightarrow> Inl (ValidationError reason)
    | None \<Rightarrow> Inr cleaned_data)"
  using assms
  by (simp add: clean_def checks_def re_search_iff special_iff MIN_LENGTH_def Let_def)

theorem clean_first_failing_check_witness:
  "clean ascii_env jdoe (request ''OldSecret1'' ''alllowercase123@'') = Inl (ValidationError MissingCaseMix)"
proof -
  have "first_failing (checks ascii_env jdoe (str ''OldSecret1'') (str ''alllowercase123@'')) = Some MissingCaseMix"
    by (simp add: checks_def example_defs)
  then show ?thesis
    using clean_first_failing_check [of "request ''OldSecret1'' ''alllowercase123@''" "str ''OldSecret1''"
        "str ''alllowercase123@''" jdoe "str ''jdoe''" ascii_env]
    by (simp add: request_def jdoe_def)
qed

text \<open>
  C4. \<open>clean\<close> raises the unchanged-password error exactly when \<open>check_password\<close>
  accepts the old password and the new password equals the old one. So it is raised for
  every correct old password repeated as the new one, and never when the old password
  is refused: the comparison is made only after the old-password check has succeeded.
\<close>

theorem password_unchanged_iff:
  "clean E user cleaned_data = Inl (ValidationError PasswordUnchanged) \<longleftrightarrow>
     check_password E user (cleaned_data ''old_password'')
     \<and> cleaned_data ''new_password1'' = cleaned_data ''old_password''"
  by (simp add: clean_def Let_def split: option.split)

theorem password_unchanged_iff_witness:
  "clean ascii_env jdoe (request ''OldSecret1'' ''OldSecret1'') = Inl (ValidationError PasswordUnchanged)"
proof -
  have "check_password ascii_env jdoe (request ''OldSecret1'' ''OldSecret1'' ''old_password'')
      \<and> request ''OldSecret1'' ''OldSecret1'' ''new_password1''
        = request ''OldSecret1'' ''OldSecret1'' ''old_password''"
    by (simp add: ascii_env_def jdoe_def request_def)
  then show ?thesis by (simp only: password_unchanged_iff)
qed

text \<open>
  C8. When the old password is correct, the new one differs from it and has a lowercase
  and an uppercase ASCII letter, a new password of fewer than 14 characters is refused as
  too short, whatever the digit, special-character and identity checks would say.
  The witness is the 8-character \<open>short1A@\<close>.
\<close>

theorem too_short:
  assumes "cleaned_data ''old_password'' = Some old"
    and "cleaned_data ''new_password1'' = Some new"
    and "check_password E user (Some old)"
    and "new \<noteq> old"
    and "\<exists>c \<in> set new. lower_az c"
    and "\<exists>c \<in> set new. upper_AZ c"
    and "length new < 14"
  shows "clean E user cleaned_data = Inl (ValidationError TooShort)"
  using assms by (simp add: clean_def re_search_iff MIN_LENGTH_def)

theorem too_short_witness:
  "length (str ''short1A@'') = 8
   \<and> clean ascii_env jdoe (request ''OldSecret1'' ''short1A@'') = Inl (ValidationError TooShort)"
proof -
  have "clean ascii_env jdoe (request ''OldSecret1'' ''short1A@'') = Inl (ValidationError TooShort)"
  proof (rule too_short)
    show "request ''OldSecret1'' ''short1A@'' ''old_password'' = Some (str ''OldSecret1'')"
      by (simp add: request_def)
    show "request ''OldSecret1'' ''short1A@'' ''new_password1'' = Some (str ''short1A@'')"
      by (simp add: request_def)
    show "check_password ascii_env jdoe (Some (str ''OldSecret1''))"
      by (simp add: ascii_env_def jdoe_def)
    show "str ''short1A@'' \<noteq> str ''OldSecret1''"
      by (simp add: str_def)
    show "\<exists>c \<in> set (str ''short1A@''). lower_az c"
      by (simp add: str_def lower_az_def)
    show "\<exists>c \<in> set (str ''short1A@''). upper_AZ c"
      by (simp add: str_def upper_AZ_def)
    show "length (str ''short1A@'') < 14"
      by (simp add: str_def)
  qed
  then show ?thesis by (simp add: str_def)
qed

text \<open>
  C7. When the old password is correct and the new one differs from it, has a lowercase
  and an uppercase ASCII letter, at least 14 characters and a digit, \<open>clean\<close> raises
  the missing-special-character error exactly when the new password has none of the three
  characters \<open>@\<close>, \<open>#\<close> and \<open>$\<close>; no other character counts. The witness is
  \<open>ValidLength1234\<close>.
\<close>

theorem missing_special_char_iff:
  assumes "cleaned_data ''old_password'' = Some old"
    and "cleaned_data ''new_password1'' = Some new"
    and "check_password E user (Some old)"
    and "new \<noteq> old"
    and "\<exists>c \<in> set new. lower_az c"
    and "\<exists>c \<in> set new. upper_AZ c"
    and "14 \<le> length new"
    and "\<exists>c \<in> set new. isdigit E c"
  shows "clean E user cleaned_data = Inl (ValidationError MissingSpecialChar) \<longleftrightarrow>
    set new \<inter> {of_char CHR ''@'', of_char CHR ''#'', of_char CHR ''$''} = {}"
proof (cases "\<exists>c \<in> set new. special c")
  case True
  with assms have "clean E user cleaned_data \<noteq> Inl (ValidationError MissingSpecialChar)"
    by (simp add: clean_def re_search_iff MIN_LENGTH_def Let_def split: option.split)
  moreover from True
  have "set new \<inter> {of_char CHR ''@'', of_char CHR ''#'', of_char CHR ''$''} \<noteq> {}"
    unfolding special_def by blast
  ultimately show ?thesis by simp
next
  case False
  with assms have "clean E user cleaned_data = Inl (ValidationError MissingSpecialChar)"
    by (simp add: clean_def re_search_iff MIN_LENGTH_def)
  moreover from False
  have "set new \<inter> {of_char CHR ''@'', of_char CHR ''#'', of_char CHR ''$''} = {}"
    unfolding special_def by blast
  ultimately show ?thesis by simp
qed

theorem missing_special_char_iff_witness:
  "clean ascii_env jdoe (request ''OldSecret1'' ''ValidLength1234'')
     = Inl (ValidationError MissingSpecialChar)"
proof -
  have "clean ascii_env jdoe (request ''OldSecret1'' ''ValidLength1234'')
      = Inl (ValidationError MissingSpecialChar) \<longleftrightarrow>
    set (str ''ValidLength1234'') \<inter> {of_char CHR ''@'', of_char CHR ''#'', of_char CHR ''$''} = {}"
  proof (rule missing_special_char_iff)
    show "request ''OldSecret1'' ''ValidLength1234'' ''old_password'' = Some (str ''OldSecret1'')"
      by (simp add: request_def)
    show "request ''OldSecret1'' ''ValidLength1234'' ''new_password1'' = Some (str ''ValidLength1234'')"
      by (simp add: request_def)
    show "check_password ascii_env jdoe (Some (str ''OldSecret1''))"
      by (simp add: ascii_env_def jdoe_def)
    show "str ''ValidLength1234'' \<noteq> str ''OldSecret1''"
      by (simp add: str_def)
    show "\<exists>c \<in> set (str ''ValidLength1234''). lower_az c"
      by (simp add: str_def lower_az_def)
    show "\<exists>c \<in> set (str ''ValidLength1234''). upper_AZ c"
      by (simp add: str_def upper_AZ_def)
    show "14 \<le> length (str ''ValidLength1234'')"
      by (simp add: str_def)
    show "\<exists>c \<in> set (str ''ValidLength1234''). isdigit ascii_env c"
      by (simp add: str_def ascii_env_def ascii_digit_def)
  qed
  moreover have "set (str ''ValidLength1234'')
      \<inter> {of_char CHR ''@'', of_char CHR ''#'', of_char CHR ''$''} = {}"
    by (simp add: str_def)
  ultimately show ?thesis by simp
qed

text \<open>
  C6. A new password that passes the first six checks and contains a name of the user is
  refused with the identity-fragment error when the user has a username (proved
  further below), but not for every user: when the username is \<open>None\<close>, \<open>clean\<close>
  raises \<open>AttributeError\<close> for every new password that passes the six checks, whether
  or not it contains the first or the last name. The witness is John without a username
  and \<open>MyJohnPass12@@\<close>.
\<close>

theorem no_username_raises_attribute_error:
  assumes "cleaned_data ''old_password'' = Some old"
    and "cleaned_data ''new_password1'' = Some new"
    and "username user = None"
    and "check_password E user (Some old)"
    and "new \<noteq> old"
    and "\<exists>c \<in> set new. lower_az c"
    and "\<exists>c \<in> set new. upper_AZ c"
    and "14 \<le> length new"
    and "\<exists>c \<in> set new. isdigit E c"
    and "\<exists>c \<in> set new. c \<in> set (str ''@#$'')"
  shows "clean E user cleaned_data = Inl AttributeError"
  using assms
  by (simp add: clean_def re_search_iff special_iff MIN_LENGTH_def)

theorem no_username_raises_attribute_error_witness:
  "py_in (lower ascii_env (first_name (jdoe\<lparr>username := None\<rparr>)))
      (lower ascii_env (str ''MyJohnPass12@@''))
   \<and> clean ascii_env (jdoe\<lparr>username := None\<rparr>) (request ''OldSecret1'' ''MyJohnPass12@@'')
       = Inl AttributeError"
proof
  show "py_in (lower ascii_env (first_name (jdoe\<lparr>username := None\<rparr>)))
      (lower ascii_env (str ''MyJohnPass12@@''))"
    by (simp add: jdoe_def str_def ascii_env_def ascii_lower_def upper_AZ_def)
  show "clean ascii_env (jdoe\<lparr>username := None\<rparr>) (request ''OldSecret1'' ''MyJohnPass12@@'')
      = Inl AttributeError"
  proof (rule no_username_raises_attribute_error)
    show "request ''OldSecret1'' ''MyJohnPass12@@'' ''old_password'' = Some (str ''OldSecret1'')"
      by (simp add: request_def)
    show "request ''OldSecret1'' ''MyJohnPass12@@'' ''new_password1'' = Some (str ''MyJohnPass12@@'')"
      by (simp add: request_def)
    show "username (jdoe\<lparr>username := None\<rparr>) = None"
      by simp
    show "check_password ascii_env (jdoe\<lparr>username := None\<rparr>) (Some (str ''OldSecret1''))"
      by (simp add: ascii_env_def jdoe_def)
    show "str ''MyJohnPass12@@'' \<noteq> str ''OldSecret1''"
      by (simp add: str_def)
    show "\<exists>c \<in> set (str ''MyJohnPass12@@''). lower_az c"
      by (simp add: str_def lower_az_def)
    show "\<exists>c \<in> set (str ''MyJohnPass12@@''). upper_AZ c"
      by (simp add: str_def upper_AZ_def)
    show "14 \<le> length (str ''MyJohnPass12@@'')"
      by (simp add: str_def)
    show "\<exists>c \<in> set (str ''MyJohnPass12@@''). isdigit ascii_env c"
      by (simp add: str_def ascii_env_def ascii_digit_def)
    show "\<exists>c \<in> set (str ''MyJohnPass12@@''). c \<in> set (str ''@#$'')"
      by (simp add: str_def)
  qed
qed

text \<open>
  For a user with a username: when the old password is correct and the new one differs
  from it, has a lowercase and an uppercase ASCII letter, at least 14 characters, a
  digit and one of \<open>@\<close>, \<open>#\<close>, \<open>$\<close>, and the lower-cased new password contains the
  lower-cased username, first name or last name of the user, \<open>clean\<close> raises the
  identity-fragment error. The witness is \<open>MyJohnPass12@@\<close> for the user whose first
  name is \<open>John\<close>.
\<close>

theorem contains_identity_fragment:
  assumes "cleaned_data ''old_password'' = Some old"
    and "cleaned_data ''new_password1'' = Some new"
    and "username user = Some name"
    and "check_password E user (Some old)"
    and "new \<noteq> old"
    and "\<exists>c \<in> set new. lower_az c"
    and "\<exists>c \<in> set new. upper_AZ c"
    and "14 \<le> length new"
    and "\<exists>c \<in> set new. isdigit E c"
    and "\<exists>c \<in> set new. c \<in> set (str ''@#$'')"
    and "py_in (lower E name) (lower E new)
         \<or> py_in (lower E (first_name user)) (lower E new)
         \<or> py_in (lower E (last_name user)) (lower E new)"
  shows "clean E user cleaned_data = Inl (ValidationError ContainsIdentityFragment)"
  using assms
  by (auto simp add: clean_def re_search_iff special_iff MIN_LENGTH_def Let_def)

theorem contains_identity_fragment_witness:
  "clean ascii_env jdoe (request ''OldSecret1'' ''MyJohnPass12@@'')
     = Inl (ValidationError ContainsIdentityFragment)"
proof (rule contains_identity_fragment)
  show "request ''OldSecret1'' ''MyJohnPass12@@'' ''old_password'' = Some (str ''OldSecret1'')"
    by (simp add: request_def)
  show "request ''OldSecret1'' ''MyJohnPass12@@'' ''new_password1'' = Some (str ''MyJohnPass12@@'')"
    by (simp add: request_def)
  show "username jdoe = Some (str ''jdoe'')"
    by (simp add: jdoe_def)
  show "check_password ascii_env jdoe (Some (str ''OldSecret1''))"
    by (simp add: ascii_env_def jdoe_def)
  show "str ''MyJohnPass12@@'' \<noteq> str ''OldSecret1''"
    by (simp add: str_def)
  show "\<exists>c \<in> set (str ''MyJohnPass12@@''). lower_az c"
    by (simp add: str_def lower_az_def)
  show "\<exists>c \<in> set (str ''MyJohnPass12@@''). upper_AZ c"
    by (simp add: str_def upper_AZ_def)
  show "14 \<le> length (str ''MyJohnPass12@@'')"
    by (simp add: str_def)
  show "\<exists>c \<in> set (str ''MyJohnPass12@@''). isdigit ascii_env c"
    by (simp add: str_def ascii_env_def ascii_digit_def)
  show "\<exists>c \<in> set (str ''MyJohnPass12@@''). c \<in> set (str ''@#$'')"
    by (simp add: str_def)
  show "py_in (lower ascii_env (str ''jdoe'')) (lower ascii_env (str ''MyJohnPass12@@''))
      \<or> py_in (lower ascii_env (first_name jdoe)) (lower ascii_env (str ''MyJohnPass12@@''))
      \<or> py_in (lower ascii_env (last_name jdoe)) (lower ascii_env (str ''MyJohnPass12@@''))"
    by (simp add: jdoe_def str_def ascii_env_def ascii_lower_def upper_AZ_def)
qed

text \<open>
  C2. The source has no test for an empty field: \<open>'' in s\<close> is true for every \<open>s\<close>, so
  for a user whose first name is empty every new password that passes the first six
  checks is refused with the identity-fragment error (the lower-cased empty string
  being empty). The witness is a user with no first name and \<open>Str0ng#Pass2024\<close>, which
  contains neither the username nor the last name.
\<close>

theorem empty_first_name_always_refused:
  assumes "cleaned_data ''old_password'' = Some old"
    and "cleaned_data ''new_password1'' = Some new"
    and "username user = Some name"
    and "check_password E user (Some old)"
    and "new \<noteq> old"
    and "\<exists>c \<in> set new. lower_az c"
    and "\<exists>c \<in> set new. upper_AZ c"
    and "14 \<le> length new"
    and "\<exists>c \<in> set new. isdigit E c"
    and "\<exists>c \<in> set new. c \<in> set (str ''@#$'')"
    and "first_name user = []"
    and "lower E [] = []"
  shows "clean E user cleaned_data = Inl (ValidationError ContainsIdentityFragment)"
proof -
  have "py_in (lower E (first_name user)) (lower E new)"
    using assms(11,12) by (simp add: py_in_empty)
  with assms(1-10) show ?thesis
    by (simp add: clean_def re_search_iff special_iff MIN_LENGTH_def Let_def)
qed

theorem empty_first_name_always_refused_witness:
  "spec_compliant ascii_env (jdoe\<lparr>first_name := []\<rparr>) (str ''OldSecret1'') (str ''Str0ng#Pass2024'')
   \<and> clean ascii_env (jdoe\<lparr>first_name := []\<rparr>) (request ''OldSecret1'' ''Str0ng#Pass2024'')
       = Inl (ValidationError ContainsIdentityFragment)"
proof
  show "spec_compliant ascii_env (jdoe\<lparr>first_name := []\<rparr>) (str ''OldSecret1'') (str ''Str0ng#Pass2024'')"
    by (simp add: spec_compliant_def spec_identity_leak_def example_defs)
  show "clean ascii_env (jdoe\<lparr>first_name := []\<rparr>) (request ''OldSecret1'' ''Str0ng#Pass2024'')
      = Inl (ValidationError ContainsIdentityFragment)"
  proof (rule empty_first_name_always_refused)
    show "request ''OldSecret1'' ''Str0ng#Pass2024'' ''old_password'' = Some (str ''OldSecret1'')"
      by (simp add: request_def)
    show "request ''OldSecret1'' ''Str0ng#Pass2024'' ''new_password1'' = Some (str ''Str0ng#Pass2024'')"
      by (simp add: request_def)
    show "username (jdoe\<lparr>first_name := []\<rparr>) = Some (str ''jdoe'')"
      by (simp add: jdoe_def)
    show "check_password ascii_env (jdoe\<lparr>first_name := []\<rparr>) (Some (str ''OldSecret1''))"
      by (simp add: ascii_env_def jdoe_def)
    show "str ''Str0ng#Pass2024'' \<noteq> str ''OldSecret1''"
      by (simp add: str_def)
    show "\<exists>c \<in> set (str ''Str0ng#Pass2024''). lower_az c"
      by (simp add: str_def lower_az_def)
    show "\<exists>c \<in> set (str ''Str0ng#Pass2024''). upper_AZ c"
      by (simp add: str_def upper_AZ_def)
    show "14 \<le> length (str ''Str0ng#Pass2024'')"
      by (simp add: str_def)
    show "\<exists>c \<in> set (str ''Str0ng#Pass2024''). isdigit ascii_env c"
      by (simp add: str_def ascii_env_def ascii_digit_def)
    show "\<exists>c \<in> set (str ''Str0ng#Pass2024''). c \<in> set (str ''@#$'')"
      by (simp add: str_def)
    show "first_name (jdoe\<lparr>first_name := []\<rparr>) = []"
      by simp
    show "lower ascii_env [] = []"
      by (simp add: ascii_env_def ascii_lower_def)
  qed
qed

text \<open>
  C5. A request that complies with all seven rules is accepted when none of the user's
  three identity fields is empty (proved further below), but not for
  every user: when the first name, the last name or the username is empty, the compliant
  request is refused with the identity-fragment error. The witness is John with the
  username \<open>jdoe\<close> and an empty last name, and the new password \<open>Str0ng#Pass2024\<close>.
\<close>

theorem compliant_request_refused_for_empty_field:
  assumes "cleaned_data ''old_password'' = Some old"
    and "cleaned_data ''new_password1'' = Some new"
    and "username user = Some name"
    and "spec_compliant E user old new"
    and "first_name user = [] \<or> last_name user = [] \<or> name = []"
    and "lower E [] = []"
  shows "clean E user cleaned_data = Inl (ValidationError ContainsIdentityFragment)"
proof -
  from assms(5,6) have "py_in (lower E (first_name user)) (lower E new)
      \<or> py_in (lower E (last_name user)) (lower E new)
      \<or> py_in (lower E name) (lower E new)"
    by (auto simp: py_in_empty)
  with assms(1-4) show ?thesis
    by (auto simp add: clean_def spec_compliant_def re_search_iff special_iff MIN_LENGTH_def Let_def)
qed

theorem compliant_request_refused_for_empty_field_witness:
  "spec_compliant ascii_env (jdoe\<lparr>last_name := []\<rparr>) (str ''OldSecret1'') (str ''Str0ng#Pass2024'')
   \<and> clean ascii_env (jdoe\<lparr>last_name := []\<rparr>) (request ''OldSecret1'' ''Str0ng#Pass2024'')
       = Inl (ValidationError ContainsIdentityFragment)"
proof
  show ok: "spec_compliant ascii_env (jdoe\<lparr>last_name := []\<rparr>) (str ''OldSecret1'') (str ''Str0ng#Pass2024'')"
    by (simp add: spec_compliant_def spec_identity_leak_def example_defs)
  show "clean ascii_env (jdoe\<lparr>last_name := []\<rparr>) (request ''OldSecret1'' ''Str0ng#Pass2024'')
      = Inl (ValidationError ContainsIdentityFragment)"
  proof (rule compliant_request_refused_for_empty_field [OF _ _ _ ok])
    show "request ''OldSecret1'' ''Str0ng#Pass2024'' ''old_password'' = Some (str ''OldSecret1'')"
      by (simp add: request_def)
    show "request ''OldSecret1'' ''Str0ng#Pass2024'' ''new_password1'' = Some (str ''Str0ng#Pass2024'')"
      by (simp add: request_def)
    show "username (jdoe\<lparr>last_name := []\<rparr>) = Some (str ''jdoe'')"
      by (simp add: jdoe_def)
    show "first_name (jdoe\<lparr>last_name := []\<rparr>) = [] \<or> last_name (jdoe\<lparr>last_name := []\<rparr>) = []
        \<or> str ''jdoe'' = []"
      by simp
    show "lower ascii_env [] = []"
      by (simp add: ascii_env_def ascii_lower_def)
  qed
qed

text \<open>
  A request that complies with all seven rules, for a user whose username, first name
  and last name are all non-empty, is accepted: \<open>clean\<close> returns the cleaned data.
\<close>

theorem compliant_request_accepted:
  assumes "cleaned_data ''old_password'' = Some old"
    and "cleaned_data ''new_password1'' = Some new"
    and "username user = Some name"
    and "name \<noteq> []" and "first_name user \<noteq> []" and "last_name user \<noteq> []"
    and "spec_compliant E user old new"
  shows "clean E user cleaned_data = Inr cleaned_data"
  using assms
  by (simp add: clean_def spec_compliant_def spec_identity_leak_def re_search_iff special_iff
      MIN_LENGTH_def Let_def)

theorem compliant_request_accepted_witness:
  "clean ascii_env jdoe (request ''OldSecret1'' ''Str0ng#Pass2024'')
     = Inr (request ''OldSecret1'' ''Str0ng#Pass2024'')"
proof (rule compliant_request_accepted)
  show "request ''OldSecret1'' ''Str0ng#Pass2024'' ''old_password'' = Some (str ''OldSecret1'')"
    by (simp add: request_def)
  show "request ''OldSecret1'' ''Str0ng#Pass2024'' ''new_password1'' = Some (str ''Str0ng#Pass2024'')"
    by (simp add: request_def)
  show "username jdoe = Some (str ''jdoe'')"
    by (simp add: jdoe_def)
  show "str ''jdoe'' \<noteq> []" "first_name jdoe \<noteq> []" "last_name jdoe \<noteq> []"
    by (simp_all add: jdoe_def str_def)
  show "spec_compliant ascii_env jdoe (str ''OldSecret1'') (str ''Str0ng#Pass2024'')"
    by (simp add: spec_compliant_def spec_identity_leak_def example_defs)
qed

text \<open>
  The exact condition under which \<open>clean\<close> accepts string passwords for a user with a
  username: the first six rules hold and none of the three lower-cased identity fields,
  empty or not, occurs in the lower-cased new password.
\<close>

theorem clean_accepts_iff:
  assumes "cleaned_data ''old_password'' = Some old"
    and "cleaned_data ''new_password1'' = Some new"
    and "username user = Some name"
  shows "clean E user cleaned_data = Inr cleaned_data \<longleftrightarrow>
     check_password E user (Some old)
     \<and> new \<noteq> old
     \<and> (\<exists>c \<in> set new. lower_az c) \<and> (\<exists>c \<in> set new. upper_AZ c)
     \<and> 14 \<le> length new
     \<and> (\<exists>c \<in> set new. isdigit E c)
     \<and> (\<exists>c \<in> set new. c \<in> set (str ''@#$''))
     \<and> \<not> py_in (lower E (first_name user)) (lower E new)
     \<and> \<not> py_in (lower E (last_name user)) (lower E new)
     \<and> \<not> py_in (lower E name) (lower E new)"
  using assms
  by (auto simp add: clean_def re_search_iff special_iff MIN_LENGTH_def Let_def)

theorem clean_accepts_iff_witness:
  "clean ascii_env jdoe (request ''OldSecret1'' ''MyJohnPass12@@'')
     \<noteq> Inr (request ''OldSecret1'' ''MyJohnPass12@@'')"
proof -
  have old: "request ''OldSecret1'' ''MyJohnPass12@@'' ''old_password'' = Some (str ''OldSecret1'')"
    by (simp add: request_def)
  have new: "request ''OldSecret1'' ''MyJohnPass12@@'' ''new_password1'' = Some (str ''MyJohnPass12@@'')"
    by (simp add: request_def)
  have name: "username jdoe = Some (str ''jdoe'')"
    by (simp add: jdoe_def)
  have "py_in (lower ascii_env (first_name jdoe)) (lower ascii_env (str ''MyJohnPass12@@''))"
    by (simp add: jdoe_def str_def ascii_env_def ascii_lower_def upper_AZ_def)
  with clean_accepts_iff [OF old new name, of ascii_env] show ?thesis by blast
qed

section \<open>Properties of the user manager and of the profile handler\<close>

lemma save_table_error:
  assumes "save_table d u = (d1, Inl e)"
  shows "d1 = d \<and> e = IntegrityError"
  using assms
  by (auto simp: save_table_def insert_row_def Let_def split: option.splits if_splits)

lemma save_table_result:
  assumes "save_table d u = (d1, Inr (u1, created))"
  shows "(\<exists>i. pk u1 = Some i) \<and> u1 \<in> set (users d1) \<and> profiles d1 = profiles d
    \<and> next_profile_pk d1 = next_profile_pk d
    \<and> created = is_new d u
    \<and> (created \<longrightarrow> users d1 = users d @ [u1] \<and> (\<forall>row \<in> set (users d). pk row \<noteq> pk u1))
    \<and> (\<not> created \<longrightarrow> u1 = u)"
proof (cases "pk u")
  case None
  with assms show ?thesis
    by (auto simp: save_table_def insert_row_def is_new_def Let_def split: if_splits)
next
  case (Some i)
  show ?thesis
  proof (cases "\<exists>row \<in> set (users d). pk row = Some i")
    case True
    with assms Some have "\<not> unique_conflict d u"
      and d1: "d1 = d\<lparr>users := map (\<lambda>row. if pk row = Some i then u else row) (users d)\<rparr>"
      and u1: "u1 = u" and c: "created = False"
      by (auto simp: save_table_def split: if_splits)
    from True have "u \<in> set (map (\<lambda>row. if pk row = Some i then u else row) (users d))"
      by (auto simp: image_iff)
    with Some True d1 u1 c show ?thesis
      by (simp add: is_new_def)
  next
    case False
    with assms Some show ?thesis
      by (auto simp: save_table_def insert_row_def is_new_def Let_def split: if_splits)
  qed
qed

lemma UserProfile_create_new:
  assumes "pk u1 = Some i"
    and "u1 \<in> set (users d1)"
    and "\<forall>p \<in> set (profiles d1). user_id p \<noteq> i"
  shows "\<exists>p. user_id p = i \<and>
    UserProfile_create d1 u1 =
      (d1\<lparr>profiles := profiles d1 @ [p], next_profile_pk := Suc (next_profile_pk d1)\<rparr>, Inr p)"
  using assms by (auto simp: UserProfile_create_def Let_def)

lemma save_first_time:
  assumes "db_ok d" and "save_table d u = (d1, Inr (u1, True))"
  shows "\<exists>i p. pk u1 = Some i \<and> user_id p = i \<and> profiles_of d i = [] \<and>
    save d u = (d1\<lparr>profiles := profiles d @ [p], next_profile_pk := Suc (next_profile_pk d)\<rparr>, Inr u1)"
proof -
  from save_table_result [OF assms(2)]
  obtain i where i: "pk u1 = Some i" and mem: "u1 \<in> set (users d1)"
    and same: "profiles d1 = profiles d" "next_profile_pk d1 = next_profile_pk d"
    and fresh: "\<forall>row \<in> set (users d). pk row \<noteq> pk u1"
    by auto
  have none: "\<forall>p \<in> set (profiles d). user_id p \<noteq> i"
  proof
    fix p assume "p \<in> set (profiles d)"
    with assms(1) obtain row where "row \<in> set (users d)" "pk row = Some (user_id p)"
      by (auto simp: db_ok_def)
    with fresh i show "user_id p \<noteq> i" by auto
  qed
  with same have "\<forall>p \<in> set (profiles d1). user_id p \<noteq> i" by simp
  from UserProfile_create_new [OF i mem this] obtain p where p: "user_id p = i"
    and "UserProfile_create d1 u1 =
      (d1\<lparr>profiles := profiles d1 @ [p], next_profile_pk := Suc (next_profile_pk d1)\<rparr>, Inr p)"
    by blast
  with assms(2) same
  have "save d u = (d1\<lparr>profiles := profiles d @ [p], next_profile_pk := Suc (next_profile_pk d)\<rparr>, Inr u1)"
    by (simp add: save_def create_user_profile_def)
  moreover from none have "profiles_of d i = []"
    by (simp add: profiles_of_def filter_empty_conv)
  ultimately show ?thesis using i p by blast
qed

lemma save_again:
  assumes "save_table d u = (d1, Inr (u1, False))"
  shows "save d u = (d1, Inr u1)"
  using assms by (simp add: save_def create_user_profile_def)

lemma save_error:
  assumes "save d u = (d', Inl e)"
  shows "e = IntegrityError"
proof (cases "save_table d u")
  case (Pair d1 r1)
  show ?thesis
  proof (cases r1)
    case (Inl e1)
    with Pair assms save_table_error [of d u d1 e1] show ?thesis
      by (simp add: save_def)
  next
    case (Inr b)
    obtain u1 created where b: "b = (u1, created)" by (cases b)
    with Pair Inr have st: "save_table d u = (d1, Inr (u1, created))" by simp
    from save_table_result [OF st] obtain i where "pk u1 = Some i" by blast
    with assms st show ?thesis
      by (auto simp: save_def create_user_profile_def UserProfile_create_def Let_def
          split: if_splits)
  qed
qed

lemma insert_row_succeeds:
  assumes "\<forall>row \<in> set (users d). pk row \<noteq> Some i
      \<and> email row \<noteq> email u \<and> (username u = None \<or> username row \<noteq> username u)"
  shows "insert_row d u i =
    (d\<lparr>users := users d @ [u\<lparr>pk := Some i\<rparr>], next_user_pk := max (next_user_pk d) (Suc i)\<rparr>,
     Inr (u\<lparr>pk := Some i\<rparr>, True))"
  using assms by (auto simp: insert_row_def unique_conflict_def Let_def)

lemma save_unsaved_succeeds:
  assumes "db_ok d" and "pk u = None"
    and "\<forall>row \<in> set (users d). email row \<noteq> email u \<and> (username u = None \<or> username row \<noteq> username u)"
  shows "\<exists>d' p. save d u = (d', Inr (u\<lparr>pk := Some (next_user_pk d)\<rparr>))
    \<and> users d' = users d @ [u\<lparr>pk := Some (next_user_pk d)\<rparr>]
    \<and> profiles d' = profiles d @ [p] \<and> user_id p = next_user_pk d"
proof -
  have "\<forall>row \<in> set (users d). pk row \<noteq> Some (next_user_pk d)"
    using assms(1) by (fastforce simp: db_ok_def)
  with assms(3) have "insert_row d u (next_user_pk d) =
    (d\<lparr>users := users d @ [u\<lparr>pk := Some (next_user_pk d)\<rparr>],
        next_user_pk := max (next_user_pk d) (Suc (next_user_pk d))\<rparr>,
     Inr (u\<lparr>pk := Some (next_user_pk d)\<rparr>, True))"
    by (intro insert_row_succeeds) auto
  with assms(2) have st: "save_table d u =
    (d\<lparr>users := users d @ [u\<lparr>pk := Some (next_user_pk d)\<rparr>],
        next_user_pk := max (next_user_pk d) (Suc (next_user_pk d))\<rparr>,
     Inr (u\<lparr>pk := Some (next_user_pk d)\<rparr>, True))"
    by (simp add: save_table_def)
  from save_first_time [OF assms(1) st] show ?thesis by auto
qed

lemma update_keeps_pks:
  assumes "pk u = Some i"
  shows "map pk (map (\<lambda>row. if pk row = Some i then u else row) rows) = map pk rows"
  using assms by (induction rows) auto

lemma save_table_db_ok:
  assumes "db_ok d" and "save_table d u = (d1, r)"
  shows "db_ok d1"
proof (cases "is_new d u")
  case True
  define i where "i = (case pk u of None \<Rightarrow> next_user_pk d | Some j \<Rightarrow> j)"
  from True have ins: "save_table d u = insert_row d u i"
    by (auto simp: save_table_def is_new_def i_def split: option.splits)
  show ?thesis
  proof (cases "(\<exists>row \<in> set (users d). pk row = Some i) \<or> unique_conflict d (u\<lparr>pk := Some i\<rparr>)")
    case True
    with ins assms show ?thesis by (simp add: insert_row_def)
  next
    case False
    with ins assms(2) have d1: "d1 = d\<lparr>users := users d @ [u\<lparr>pk := Some i\<rparr>],
        next_user_pk := max (next_user_pk d) (Suc i)\<rparr>"
      by (simp add: insert_row_def Let_def)
    from False have "Some i \<notin> set (map pk (users d))" by auto
    with assms(1) show ?thesis
      unfolding d1 db_ok_def by (fastforce elim: key_below.elims)
  qed
next
  case False
  then obtain i where i: "pk u = Some i" and ex: "\<exists>row \<in> set (users d). pk row = Some i"
    by (auto simp: is_new_def split: option.splits)
  show ?thesis
  proof (cases "unique_conflict d u")
    case True
    with i ex assms show ?thesis by (simp add: save_table_def)
  next
    case False
    with i ex assms(2)
    have d1: "d1 = d\<lparr>users := map (\<lambda>row. if pk row = Some i then u else row) (users d)\<rparr>"
      by (simp add: save_table_def)
    have pks: "map pk (users d1) = map pk (users d)"
      unfolding d1 using update_keeps_pks [OF i] by simp
    have "set (map pk (users d1)) = set (map pk (users d))"
      using pks by simp
    then have same: "pk ` set (users d1) = pk ` set (users d)" by simp
    have a: "\<forall>u \<in> set (users d1). key_below (next_user_pk d1) (pk u)"
      using assms(1) i ex unfolding d1 db_ok_def by auto
    have b: "distinct (map pk (users d1))"
      using assms(1) pks by (simp add: db_ok_def)
    have c: "\<forall>p \<in> set (profiles d1). \<exists>u \<in> set (users d1). pk u = Some (user_id p)"
    proof
      fix p assume "p \<in> set (profiles d1)"
      then have "p \<in> set (profiles d)" by (simp add: d1)
      with assms(1) have "Some (user_id p) \<in> pk ` set (users d)"
        by (force simp: db_ok_def)
      with same have "Some (user_id p) \<in> pk ` set (users d1)" by simp
      then show "\<exists>u \<in> set (users d1). pk u = Some (user_id p)" by force
    qed
    from a b c show ?thesis by (simp add: db_ok_def)
  qed
qed

lemma save_success:
  assumes "save d u = (d', Inr u')"
  shows "u' \<in> set (users d') \<and> (\<exists>i. u' = u\<lparr>pk := Some i\<rparr>)"
proof -
  obtain d1 r1 where st: "save_table d u = (d1, r1)" by (cases "save_table d u")
  with assms obtain u1 created where r1: "r1 = Inr (u1, created)"
    by (cases r1) (auto simp: save_def)
  from assms st r1 have u': "u' = u1"
    by (auto simp: save_def split: prod.splits sum.splits)
  from assms st r1 have "users d' = users d1"
    by (auto simp: save_def create_user_profile_def UserProfile_create_def Let_def
        split: prod.splits sum.splits if_splits option.splits)
  moreover from save_table_result [of d u d1 u1 created] st r1
  have "u1 \<in> set (users d1)" by simp
  moreover from st r1 have "\<exists>i. u1 = u\<lparr>pk := Some i\<rparr>"
    by (auto simp: save_table_def insert_row_def Let_def split: option.splits if_splits
        intro: exI [of _ "the (pk u)"])
  ultimately show ?thesis using u' by simp
qed

text \<open>
  C9. In a consistent database, a successful \<open>save\<close> of a user that is written for the
  first time (the handler is called with \<open>created\<close> true) adds exactly one profile
  row, linked to that user, who had none before; a successful \<open>save\<close> of a user that
  already has a row leaves the profiles as they were; and a \<open>save\<close> that fails leaves
  the database unchanged. A user without a key whose email and username are not taken
  is saved successfully.
\<close>

theorem profile_created_exactly_on_first_save:
  assumes "db_ok d" and "save d u = (d', r)"
  shows "(case r of
      Inl e \<Rightarrow> d' = d
    | Inr u' \<Rightarrow>
        (\<exists>i. pk u' = Some i \<and>
          (if is_new d u then
             profiles_of d i = [] \<and> length (profiles_of d' i) = 1
             \<and> (\<exists>p. user_id p = i \<and> profiles d' = profiles d @ [p])
           else profiles d' = profiles d)))
    \<and> (pk u = None
        \<and> (\<forall>row \<in> set (users d). email row \<noteq> email u \<and> (username u = None \<or> username row \<noteq> username u))
       \<longrightarrow> (\<exists>u'. r = Inr u'))"
proof
  show "pk u = None
        \<and> (\<forall>row \<in> set (users d). email row \<noteq> email u \<and> (username u = None \<or> username row \<noteq> username u))
       \<longrightarrow> (\<exists>u'. r = Inr u')"
    using save_unsaved_succeeds [OF assms(1), of u] assms(2) by auto
  obtain d1 r1 where st: "save_table d u = (d1, r1)" by (cases "save_table d u")
  show "case r of
      Inl e \<Rightarrow> d' = d
    | Inr u' \<Rightarrow>
        (\<exists>i. pk u' = Some i \<and>
          (if is_new d u then
             profiles_of d i = [] \<and> length (profiles_of d' i) = 1
             \<and> (\<exists>p. user_id p = i \<and> profiles d' = profiles d @ [p])
           else profiles d' = profiles d))"
  proof (cases r1)
    case (Inl e1)
    with st assms(2) save_table_error [of d u d1 e1] show ?thesis
      by (auto simp: save_def)
  next
    case (Inr b)
    obtain u1 created where "b = (u1, created)" by (cases b)
    with st Inr have st': "save_table d u = (d1, Inr (u1, created))" by simp
    note res = save_table_result [OF st']
    show ?thesis
    proof (cases created)
      case True
      with st' have "save_table d u = (d1, Inr (u1, True))" by simp
      from save_first_time [OF assms(1) this] assms(2)
      obtain i p where "pk u1 = Some i" "user_id p = i" "profiles_of d i = []"
        "r = Inr u1" "profiles d' = profiles d @ [p]"
        by auto
      moreover from this have "profiles_of d' i = [p]"
        by (simp add: profiles_of_def)
      moreover from res True have "is_new d u" by simp
      ultimately show ?thesis by auto
    next
      case False
      with st' have "save_table d u = (d1, Inr (u1, False))" by simp
      from save_again [OF this] assms(2) have "r = Inr u1" "d' = d1" by auto
      with res False show ?thesis by auto
    qed
  qed
qed

theorem profile_created_exactly_on_first_save_witness:
  "db_ok empty_db \<and> is_new empty_db ann
   \<and> (\<exists>d' u' p. save empty_db ann = (d', Inr u') \<and> profiles d' = [p] \<and> pk u' = Some (user_id p))"
proof -
  have ok: "db_ok empty_db"
    by (simp add: db_ok_def empty_db_def)
  have new: "is_new empty_db ann"
    by (simp add: is_new_def ann_def set_password_def model_def)
  have free: "pk ann = None
      \<and> (\<forall>row \<in> set (users empty_db). email row \<noteq> email ann
            \<and> (username ann = None \<or> username row \<noteq> username ann))"
    by (simp add: empty_db_def ann_def set_password_def model_def)
  obtain d' r where s: "save empty_db ann = (d', r)"
    by (cases "save empty_db ann")
  note fact = profile_created_exactly_on_first_save [OF ok s]
  from fact free obtain u' where r: "r = Inr u'" by blast
  from fact r new obtain p where "pk u' = Some (user_id p)" "profiles d' = profiles empty_db @ [p]"
    by auto
  then have "profiles d' = [p]" by (simp add: empty_db_def)
  with s r \<open>pk u' = Some (user_id p)\<close> ok new show ?thesis by blast
qed

text \<open>
  C10. \<open>create_user\<close> raises a \<open>ValueError\<close> exactly when the email or the username
  is \<open>None\<close> or empty; the email is tested first, and its message is the one raised
  when both are missing. The first and last names are not tested: when email and
  username are given and not taken by a row of a consistent database, the user is saved
  whatever the two names are (the empty string included); and every user that
  \<open>create_user\<close> returns has a row with the given names, username and normalized email
  and with the password that \<open>set_password\<close> produces from the given one.
\<close>

theorem create_user_value_error_iff:
  "((\<exists>m. snd (create_user E d fname lname mail uname raw_password) = Inl (ValueError m))
      \<longleftrightarrow> py_not mail \<or> py_not uname)
   \<and> (py_not mail \<longrightarrow>
        create_user E d fname lname mail uname raw_password
          = (d, Inl (ValueError ''Users must have an email address'')))
   \<and> (\<not> py_not mail \<and> py_not uname \<longrightarrow>
        create_user E d fname lname mail uname raw_password
          = (d, Inl (ValueError ''Users must have a username'')))
   \<and> (\<not> py_not mail \<and> \<not> py_not uname \<and> db_ok d
        \<and> (\<forall>row \<in> set (users d). email row \<noteq> normalize_email E mail \<and> username row \<noteq> uname)
       \<longrightarrow> (\<exists>d' u'. create_user E d fname lname mail uname raw_password = (d', Inr u')))
   \<and> (\<forall>d' u'. create_user E d fname lname mail uname raw_password = (d', Inr u')
       \<longrightarrow> u' \<in> set (users d')
           \<and> password u' = make_password E raw_password
           \<and> first_name u' = fname \<and> last_name u' = lname
           \<and> username u' = uname \<and> email u' = normalize_email E mail)"
proof -
  define u where "u = set_password E (model E fname lname (normalize_email E mail) uname) raw_password"
  have fields: "pk u = None" "email u = normalize_email E mail" "username u = uname"
    "password u = make_password E raw_password" "first_name u = fname" "last_name u = lname"
    by (simp_all add: u_def set_password_def model_def)
  have eq: "create_user E d fname lname mail uname raw_password = save d u"
    if "\<not> py_not mail" "\<not> py_not uname"
    using that by (simp add: create_user_def u_def Let_def)
  have no_value_error: "snd (save d u) \<noteq> Inl (ValueError m)" for m
  proof
    assume "snd (save d u) = Inl (ValueError m)"
    then have "save d u = (fst (save d u), Inl (ValueError m))"
      by (metis prod.collapse)
    from save_error [OF this] show False by simp
  qed
  have 1: "(\<exists>m. snd (create_user E d fname lname mail uname raw_password) = Inl (ValueError m))
      \<longleftrightarrow> py_not mail \<or> py_not uname"
  proof (cases "py_not mail \<or> py_not uname")
    case True
    then show ?thesis by (auto simp: create_user_def)
  next
    case False
    with eq no_value_error show ?thesis by simp
  qed
  have 2: "py_not mail \<longrightarrow>
      create_user E d fname lname mail uname raw_password
        = (d, Inl (ValueError ''Users must have an email address''))"
    by (simp add: create_user_def)
  have 3: "\<not> py_not mail \<and> py_not uname \<longrightarrow>
      create_user E d fname lname mail uname raw_password
        = (d, Inl (ValueError ''Users must have a username''))"
    by (simp add: create_user_def)
  have 4: "\<not> py_not mail \<and> \<not> py_not uname \<and> db_ok d
        \<and> (\<forall>row \<in> set (users d). email row \<noteq> normalize_email E mail \<and> username row \<noteq> uname)
       \<longrightarrow> (\<exists>d' u'. create_user E d fname lname mail uname raw_password = (d', Inr u'))"
  proof
    assume a: "\<not> py_not mail \<and> \<not> py_not uname \<and> db_ok d
        \<and> (\<forall>row \<in> set (users d). email row \<noteq> normalize_email E mail \<and> username row \<noteq> uname)"
    with fields have "\<forall>row \<in> set (users d). email row \<noteq> email u
        \<and> (username u = None \<or> username row \<noteq> username u)"
      by simp
    with a fields(1) save_unsaved_succeeds [of d u]
    obtain d' where "save d u = (d', Inr (u\<lparr>pk := Some (next_user_pk d)\<rparr>))"
      by blast
    with a eq show "\<exists>d' u'. create_user E d fname lname mail uname raw_password = (d', Inr u')"
      by simp
  qed
  have 5: "\<forall>d' u'. create_user E d fname lname mail uname raw_password = (d', Inr u')
       \<longrightarrow> u' \<in> set (users d')
           \<and> password u' = make_password E raw_password
           \<and> first_name u' = fname \<and> last_name u' = lname
           \<and> username u' = uname \<and> email u' = normalize_email E mail"
  proof (intro allI impI)
    fix d' u'
    assume ok: "create_user E d fname lname mail uname raw_password = (d', Inr u')"
    then have "\<not> py_not mail" "\<not> py_not uname"
      by (auto simp: create_user_def split: if_splits)
    with ok eq have "save d u = (d', Inr u')" by simp
    from save_success [OF this] obtain i where "u' \<in> set (users d')" "u' = u\<lparr>pk := Some i\<rparr>"
      by blast
    with fields show "u' \<in> set (users d')
        \<and> password u' = make_password E raw_password
        \<and> first_name u' = fname \<and> last_name u' = lname
        \<and> username u' = uname \<and> email u' = normalize_email E mail"
      by simp
  qed
  from 1 2 3 4 5 show ?thesis by blast
qed

theorem create_user_value_error_iff_witness:
  "create_user ascii_env empty_db [] [] None None (Some (str ''OldSecret1''))
     = (empty_db, Inl (ValueError ''Users must have an email address''))
   \<and> create_user ascii_env empty_db [] [] (Some (str ''ann@example.org'')) (Some [])
        (Some (str ''OldSecret1''))
     = (empty_db, Inl (ValueError ''Users must have a username''))
   \<and> (\<exists>d' u'. create_user ascii_env empty_db [] [] (Some (str ''ann@example.org''))
          (Some (str ''ann'')) (Some (str ''OldSecret1'')) = (d', Inr u')
        \<and> u' \<in> set (users d') \<and> first_name u' = [] \<and> last_name u' = []
        \<and> password u' = make_password ascii_env (Some (str ''OldSecret1'')))"
proof (intro conjI)
  note fact = create_user_value_error_iff [of ascii_env empty_db "[]" "[]" _ _ "Some (str ''OldSecret1'')"]
  show "create_user ascii_env empty_db [] [] None None (Some (str ''OldSecret1''))
     = (empty_db, Inl (ValueError ''Users must have an email address''))"
    using fact [of None None] by simp
  show "create_user ascii_env empty_db [] [] (Some (str ''ann@example.org'')) (Some [])
        (Some (str ''OldSecret1''))
     = (empty_db, Inl (ValueError ''Users must have a username''))"
    using fact [of "Some (str ''ann@example.org'')" "Some []"] by (simp add: str_def)
  have "\<not> py_not (Some (str ''ann@example.org'')) \<and> \<not> py_not (Some (str ''ann'')) \<and> db_ok empty_db
      \<and> (\<forall>row \<in> set (users empty_db).
            email row \<noteq> normalize_email ascii_env (Some (str ''ann@example.org''))
            \<and> username row \<noteq> Some (str ''ann''))"
    by (simp add: str_def db_ok_def empty_db_def)
  with fact [of "Some (str ''ann@example.org'')" "Some (str ''ann'')"]
  obtain d' u' where ok: "create_user ascii_env empty_db [] [] (Some (str ''ann@example.org''))
      (Some (str ''ann'')) (Some (str ''OldSecret1'')) = (d', Inr u')"
    by blast
  with fact [of "Some (str ''ann@example.org'')" "Some (str ''ann'')"]
  have "u' \<in> set (users d') \<and> first_name u' = [] \<and> last_name u' = []
      \<and> password u' = make_password ascii_env (Some (str ''OldSecret1''))"
    by blast
  with ok
  show "\<exists>d' u'. create_user ascii_env empty_db [] [] (Some (str ''ann@example.org''))
          (Some (str ''ann'')) (Some (str ''OldSecret1'')) = (d', Inr u')
        \<and> u' \<in> set (users d') \<and> first_name u' = [] \<and> last_name u' = []
        \<and> password u' = make_password ascii_env (Some (str ''OldSecret1''))"
    by blast
qed

text \<open>
  \<open>save\<close> keeps the database consistent, whether it succeeds or fails.
\<close>

theorem save_preserves_db_ok:
  assumes "db_ok d"
  shows "db_ok (fst (save d u))"
proof -
  obtain d1 r1 where st: "save_table d u = (d1, r1)" by (cases "save_table d u")
  from save_table_db_ok [OF assms st] have ok1: "db_ok d1" .
  show ?thesis
  proof (cases r1)
    case (Inl e)
    with st ok1 show ?thesis by (simp add: save_def)
  next
    case (Inr b)
    obtain u1 created where "b = (u1, created)" by (cases b)
    with st Inr have st': "save_table d u = (d1, Inr (u1, created))" by simp
    from save_table_result [OF st'] obtain i where "pk u1 = Some i" "u1 \<in> set (users d1)"
      by blast
    with ok1 have "db_ok (fst (UserProfile_create d1 u1))"
      by (cases "(\<exists>p \<in> set (profiles d1). user_id p = i) \<or> \<not> (\<exists>u \<in> set (users d1). pk u = Some i)")
        (simp_all add: UserProfile_create_def db_ok_def Let_def)
    with st' ok1 show ?thesis
      by (auto simp: save_def create_user_profile_def split: prod.splits sum.splits)
  qed
qed


theorem save_preserves_db_ok_witness:
  "db_ok empty_db \<and> db_ok (fst (save empty_db ann))"
proof -
  have ok: "db_ok empty_db"
    by (simp add: db_ok_def empty_db_def)
  from ok save_preserves_db_ok [OF ok, of ann] show ?thesis by simp
qed

text \<open>
  \<open>create_superuser\<close> saves the user twice, first through \<open>create_user\<close> and then
  with the two flags set. When email and username are given and not taken by a row of a
  consistent database, it succeeds, the returned user has both flags and a row, and
  exactly one profile was added, which is the only profile of that user.
\<close>

theorem create_superuser_one_profile:
  assumes "db_ok d" and "\<not> py_not mail" and "\<not> py_not uname"
    and "\<forall>row \<in> set (users d). email row \<noteq> normalize_email E mail \<and> username row \<noteq> uname"
  shows "\<exists>d' u' i. create_superuser E d fname lname mail raw_password uname = (d', Inr u')
    \<and> pk u' = Some i \<and> is_staff u' \<and> is_superuser u' \<and> u' \<in> set (users d')
    \<and> length (profiles_of d' i) = 1
    \<and> length (profiles d') = Suc (length (profiles d))"
proof -
  define u where "u = set_password E (model E fname lname (normalize_email E mail) uname) raw_password"
  define n where "n = next_user_pk d"
  define u1 where "u1 = u\<lparr>pk := Some n\<rparr>"
  define u2 where "u2 = u1\<lparr>is_staff := True, is_superuser := True\<rparr>"
  from assms(2,3) have cu: "create_user E d fname lname mail uname raw_password = save d u"
    by (simp add: create_user_def u_def Let_def)
  have fields: "pk u = None" "email u = normalize_email E mail" "username u = uname"
    by (simp_all add: u_def set_password_def model_def)
  from assms(4) fields have "\<forall>row \<in> set (users d). email row \<noteq> email u
      \<and> (username u = None \<or> username row \<noteq> username u)"
    by simp
  from save_unsaved_succeeds [OF assms(1) fields(1) this]
  obtain d1 p where s1: "save d u = (d1, Inr u1)" and us: "users d1 = users d @ [u1]"
    and ps: "profiles d1 = profiles d @ [p]" and p: "user_id p = n"
    by (auto simp: u1_def n_def)
  have fresh: "\<forall>row \<in> set (users d). pk row \<noteq> Some n"
    using assms(1) by (fastforce simp: db_ok_def n_def)
  have pk2: "pk u2 = Some n" by (simp add: u2_def u1_def)
  have ex: "\<exists>row \<in> set (users d1). pk row = Some n"
    by (simp add: us u1_def)
  have "\<not> unique_conflict d1 u2"
    using assms(4) fields by (auto simp: unique_conflict_def us u2_def u1_def)
  with pk2 ex have "save_table d1 u2 =
      (d1\<lparr>users := map (\<lambda>row. if pk row = Some n then u2 else row) (users d1)\<rparr>, Inr (u2, False))"
    by (simp add: save_table_def)
  from save_again [OF this] have s2: "save d1 u2 =
      (d1\<lparr>users := map (\<lambda>row. if pk row = Some n then u2 else row) (users d1)\<rparr>, Inr u2)" .
  define d2 where "d2 = d1\<lparr>users := map (\<lambda>row. if pk row = Some n then u2 else row) (users d1)\<rparr>"
  from cu s1 s2 have "create_superuser E d fname lname mail raw_password uname = (d2, Inr u2)"
    by (simp add: create_superuser_def d2_def u2_def)
  moreover have "is_staff u2" "is_superuser u2" by (simp_all add: u2_def)
  moreover have "u2 \<in> set (users d2)"
    by (simp add: d2_def us u1_def)
  moreover have "\<forall>q \<in> set (profiles d). user_id q \<noteq> n"
  proof
    fix q assume "q \<in> set (profiles d)"
    with assms(1) obtain row where "row \<in> set (users d)" "pk row = Some (user_id q)"
      by (auto simp: db_ok_def)
    with fresh show "user_id q \<noteq> n" by auto
  qed
  then have "profiles_of d2 n = [p]"
    by (simp add: profiles_of_def d2_def ps p)
  moreover have "length (profiles d2) = Suc (length (profiles d))"
    by (simp add: d2_def ps)
  ultimately show ?thesis using pk2 by auto
qed

theorem create_superuser_one_profile_witness:
  "\<exists>d' u' i. create_superuser ascii_env empty_db [] [] (Some (str ''ann@example.org''))
        (Some (str ''OldSecret1'')) (Some (str ''ann'')) = (d', Inr u')
    \<and> pk u' = Some i \<and> is_staff u' \<and> is_superuser u' \<and> u' \<in> set (users d')
    \<and> length (profiles_of d' i) = 1
    \<and> length (profiles d') = Suc (length (profiles empty_db))"
proof (rule create_superuser_one_profile)
  show "db_ok empty_db"
    by (simp add: db_ok_def empty_db_def)
  show "\<not> py_not (Some (str ''ann@example.org''))" "\<not> py_not (Some (str ''ann''))"
    by (simp_all add: str_def)
  show "\<forall>row \<in> set (users empty_db).
      email row \<noteq> normalize_email ascii_env (Some (str ''ann@example.org''))
      \<and> username row \<noteq> Some (str ''ann'')"
    by (simp add: empty_db_def)
qed

end
